theory Spec2Isabelle
  imports Complex_Main
begin

section \<open>JavaScript values\<close>

text \<open>
  The handlers of \<^verbatim>\<open>src/server.js\<close> and \<^verbatim>\<open>src/routes/performanceData.js\<close> receive
  JSON payloads and test them with JavaScript truthiness. The values a JSON payload can
  carry in the fields read here are modelled by \<open>jsval\<close>; numbers are the rationals
  (every finite double is one; NaN and the infinities cannot be carried by JSON).
  Object and array payloads are left out: none of the fields read by the handlers is
  meant to hold one.
\<close>

datatype jsval = JUndefined | JNull | JBool bool | JNum rat | JStr string

fun truthy :: "jsval \<Rightarrow> bool" where
  "truthy JUndefined = False"
| "truthy JNull = False"
| "truthy (JBool b) = b"
| "truthy (JNum n) = (n \<noteq> 0)"
| "truthy (JStr s) = (s \<noteq> [])"

text \<open>The operator \<^verbatim>\<open>a || b\<close>: the left operand when it is truthy, the right one otherwise.\<close>

definition js_or :: "jsval \<Rightarrow> jsval \<Rightarrow> jsval" where
  "js_or a b = (if truthy a then a else b)"

section \<open>The members of a subscriber set\<close>

text \<open>
  \<^verbatim>\<open>vehicleConnections\<close> is a \<^verbatim>\<open>Map\<close> from a vehicle identifier to a \<^verbatim>\<open>Set\<close>.
  The socket handlers of \<^verbatim>\<open>server.js\<close> store \<^verbatim>\<open>socket.id\<close>, a string, in the sets
  (\<open>SocketId\<close>). The REST handler of \<^verbatim>\<open>performanceData.js\<close> reads every member as a
  \<^verbatim>\<open>ws\<close> socket object with a \<^verbatim>\<open>readyState\<close> and a \<^verbatim>\<open>send\<close> method (\<open>WsObject\<close>, with
  the identity of the object and its ready state). Reading \<^verbatim>\<open>readyState\<close> from a string
  gives \<^verbatim>\<open>undefined\<close>.
\<close>

datatype member = SocketId string | WsObject nat nat

fun readyState :: "member \<Rightarrow> jsval" where
  "readyState (SocketId s) = JUndefined"
| "readyState (WsObject ref state) = JNum (of_nat state)"

text \<open>The constant \<^verbatim>\<open>WebSocket.OPEN\<close> of the \<^verbatim>\<open>ws\<close> library (CONNECTING 0, OPEN 1,
  CLOSING 2, CLOSED 3).\<close>

definition WebSocket_OPEN :: jsval where
  "WebSocket_OPEN = JNum 1"

section \<open>Set and Map\<close>

text \<open>
  A JavaScript \<^verbatim>\<open>Set\<close> is a duplicate-free collection kept in insertion order, a
  \<^verbatim>\<open>Map\<close> a collection of entries with distinct keys kept in insertion order. Both are
  lists here; \<open>set_add\<close> and \<open>map_set\<close> keep the position of a member or key that
  is already there and append a new one at the end.
\<close>

type_synonym connections = "member list"
type_synonym registry = "(jsval \<times> connections) list"

definition set_has :: "connections \<Rightarrow> member \<Rightarrow> bool" where
  "set_has s x = (x \<in> set s)"

definition set_add :: "connections \<Rightarrow> member \<Rightarrow> connections" where
  "set_add s x = (if x \<in> set s then s else s @ [x])"

definition set_delete :: "connections \<Rightarrow> member \<Rightarrow> connections" where
  "set_delete s x = removeAll x s"

definition set_size :: "connections \<Rightarrow> nat" where
  "set_size s = length s"

definition map_get :: "registry \<Rightarrow> jsval \<Rightarrow> connections option" where
  "map_get m k = map_of m k"

definition map_has :: "registry \<Rightarrow> jsval \<Rightarrow> bool" where
  "map_has m k = (map_of m k \<noteq> None)"

fun map_set :: "registry \<Rightarrow> jsval \<Rightarrow> connections \<Rightarrow> registry" where
  "map_set [] k v = [(k, v)]"
| "map_set ((k', v') # m) k v = (if k' = k then (k, v) # m else (k', v') # map_set m k v)"

definition map_delete :: "registry \<Rightarrow> jsval \<Rightarrow> registry" where
  "map_delete m k = filter (\<lambda>e. fst e \<noteq> k) m"

text \<open>
  A \<^verbatim>\<open>Set\<close> is an object: \<^verbatim>\<open>vehicleConnections.get(v).add(x)\<close> and
  \<^verbatim>\<open>connections.delete(x)\<close> change the set that the entry of the map refers to.
  Every set is created by \<^verbatim>\<open>new Set()\<close> for one key and referred to from nowhere else,
  so the mutation is the replacement of the value of that one entry.
\<close>

fun mutate_set :: "registry \<Rightarrow> jsval \<Rightarrow> (connections \<Rightarrow> connections) \<Rightarrow> registry" where
  "mutate_set [] k f = []"
| "mutate_set ((k', s) # m) k f = (if k' = k then (k', f s) # m else (k', s) # mutate_set m k f)"

section \<open>Telemetry samples, messages and the state of the server\<close>

record telemetry =
  vehicle_id :: jsval
  rpm :: jsval
  speed :: jsval
  batteryVoltage :: jsval
  fuelTankLevel :: jsval
  intakeAirTemp :: jsval
  coolantTemp :: jsval
  engineTemp :: jsval
  fuelConsumption :: jsval
  timestamp :: jsval

text \<open>The row the database hands back after an insert: the stored fields and the
  identifier it assigned.\<close>

record stored_row =
  row_id :: jsval
  row :: telemetry

text \<open>
  The outcome of \<^verbatim>\<open>await supabase.from(...).insert([performanceData]).select().single()\<close>:
  \<^verbatim>\<open>{data, error: null}\<close>, \<^verbatim>\<open>{data: null, error}\<close> with an error object, or a rejected
  promise (an exception in the handler).
\<close>

datatype db_reply = DbData stored_row | DbError string | DbThrow

text \<open>The events a handler emits to one socket with \<^verbatim>\<open>socket.emit(name, payload)\<close>.\<close>

datatype event =
    EvError string
  | EvSubscribed jsval string
  | EvUnsubscribed jsval
  | EvDataError string
  | EvDataStored bool jsval jsval

text \<open>The JSON body written by \<^verbatim>\<open>successResponse\<close> and \<^verbatim>\<open>errorResponse\<close> of
  \<^verbatim>\<open>src/utils/response.js\<close>, with the status code.\<close>

record response =
  res_status :: nat
  res_success :: bool
  res_message :: string
  res_timestamp :: string
  res_data :: "stored_row option"

text \<open>
  The state: the process-wide map, and the logs of what the handlers did to the outside:
  the events emitted (with the socket they went to), the messages sent with
  \<^verbatim>\<open>ws.send\<close> (with the member they went to), the rows handed to the database and the
  HTTP responses written.
\<close>

record server =
  vehicleConnections :: registry
  emitted :: "(string \<times> event) list"
  sent :: "(member \<times> telemetry) list"
  insert_calls :: "telemetry list"
  responses :: "response list"

definition initial :: server where
  "initial = \<lparr>vehicleConnections = [], emitted = [], sent = [], insert_calls = [], responses = []\<rparr>"

definition emit :: "string \<Rightarrow> event \<Rightarrow> server \<Rightarrow> server" where
  "emit socket_id ev st = st\<lparr>emitted := emitted st @ [(socket_id, ev)]\<rparr>"

definition ws_send :: "member \<Rightarrow> telemetry \<Rightarrow> server \<Rightarrow> server" where
  "ws_send ws message st = st\<lparr>sent := sent st @ [(ws, message)]\<rparr>"

definition supabase_insert :: "telemetry \<Rightarrow> server \<Rightarrow> server" where
  "supabase_insert performanceData st = st\<lparr>insert_calls := insert_calls st @ [performanceData]\<rparr>"

definition successResponse :: "nat \<Rightarrow> string \<Rightarrow> stored_row option \<Rightarrow> string \<Rightarrow> server \<Rightarrow> server" where
  "successResponse statusCode message data now st =
     st\<lparr>responses := responses st @
        [\<lparr>res_status = statusCode, res_success = True, res_message = message,
          res_timestamp = now, res_data = data\<rparr>]\<rparr>"

definition createdResponse :: "string \<Rightarrow> stored_row \<Rightarrow> string \<Rightarrow> server \<Rightarrow> server" where
  "createdResponse message data now st = successResponse 201 message (Some data) now st"

definition errorResponse :: "nat \<Rightarrow> string \<Rightarrow> string \<Rightarrow> server \<Rightarrow> server" where
  "errorResponse statusCode message now st =
     st\<lparr>responses := responses st @
        [\<lparr>res_status = statusCode, res_success = False, res_message = message,
          res_timestamp = now, res_data = None\<rparr>]\<rparr>"

section \<open>The socket handlers of server.js\<close>

text \<open>\<^verbatim>\<open>socket.on('subscribe-vehicle', (vehicleId) => ...)\<close>, lines 87 to 104. The rooms of
  the socket library (\<^verbatim>\<open>socket.join\<close>, \<^verbatim>\<open>socket.leave\<close>) are kept by the library and
  read by no handler; they are not part of the state.\<close>

definition track_connection :: "registry \<Rightarrow> jsval \<Rightarrow> string \<Rightarrow> registry" where
  "track_connection m vehicleId socket_id =
     (let m1 = (if \<not> map_has m vehicleId then map_set m vehicleId [] else m)
      in mutate_set m1 vehicleId (\<lambda>s. set_add s (SocketId socket_id)))"

definition on_subscribe_vehicle :: "string \<Rightarrow> jsval \<Rightarrow> server \<Rightarrow> server" where
  "on_subscribe_vehicle socket_id vehicleId st =
     (if \<not> truthy vehicleId then emit socket_id (EvError ''Vehicle ID is required'') st
      else emit socket_id (EvSubscribed vehicleId ''Successfully subscribed to vehicle updates'')
             (st\<lparr>vehicleConnections :=
                   track_connection (vehicleConnections st) vehicleId socket_id\<rparr>))"

text \<open>\<^verbatim>\<open>socket.on('unsubscribe-vehicle', (vehicleId) => ...)\<close>, lines 107 to 122.\<close>

definition untrack_connection :: "registry \<Rightarrow> jsval \<Rightarrow> string \<Rightarrow> registry" where
  "untrack_connection m vehicleId socket_id =
     (case map_get m vehicleId of
        None \<Rightarrow> m
      | Some connections \<Rightarrow>
          (let m1 = mutate_set m vehicleId (\<lambda>s. set_delete s (SocketId socket_id))
           in if set_size (set_delete connections (SocketId socket_id)) = 0
              then map_delete m1 vehicleId else m1))"

definition on_unsubscribe_vehicle :: "string \<Rightarrow> jsval \<Rightarrow> server \<Rightarrow> server" where
  "on_unsubscribe_vehicle socket_id vehicleId st =
     (if truthy vehicleId
      then emit socket_id (EvUnsubscribed vehicleId)
             (st\<lparr>vehicleConnections :=
                   untrack_connection (vehicleConnections st) vehicleId socket_id\<rparr>)
      else st)"

text \<open>
  \<^verbatim>\<open>socket.on('performance-data', async (data) => ...)\<close>, lines 125 to 185. A payload
  that is \<^verbatim>\<open>undefined\<close> or \<^verbatim>\<open>null\<close> (\<open>None\<close>) makes the destructuring throw, which the
  \<^verbatim>\<open>catch\<close> block answers. \<open>now\<close> is the reading of \<^verbatim>\<open>new Date().toISOString()\<close>,
  \<open>reply\<close> the outcome of the insert.
\<close>

definition on_performance_data ::
  "string \<Rightarrow> telemetry option \<Rightarrow> string \<Rightarrow> db_reply \<Rightarrow> server \<Rightarrow> server" where
  "on_performance_data socket_id data now reply st =
     (case data of
        None \<Rightarrow> emit socket_id (EvDataError ''Failed to process performance data'') st
      | Some d \<Rightarrow>
          if \<not> truthy (vehicle_id d)
          then emit socket_id (EvDataError ''Vehicle ID is required'') st
          else
            (let performanceData =
                   \<lparr>vehicle_id = vehicle_id d,
                    rpm = js_or (rpm d) JNull,
                    speed = js_or (speed d) JNull,
                    batteryVoltage = js_or (batteryVoltage d) JNull,
                    fuelTankLevel = js_or (fuelTankLevel d) JNull,
                    intakeAirTemp = js_or (intakeAirTemp d) JNull,
                    coolantTemp = js_or (coolantTemp d) JNull,
                    engineTemp = js_or (engineTemp d) JNull,
                    fuelConsumption = js_or (fuelConsumption d) JNull,
                    timestamp = JStr now\<rparr>;
                 st1 = supabase_insert performanceData st
             in case reply of
                  DbThrow \<Rightarrow>
                    emit socket_id (EvDataError ''Failed to process performance data'') st1
                | DbError e \<Rightarrow>
                    emit socket_id (EvDataError ''Failed to store performance data'') st1
                | DbData insertedData \<Rightarrow>
                    emit socket_id
                      (EvDataStored True (vehicle_id d) (timestamp performanceData)) st1))"

text \<open>
  \<^verbatim>\<open>socket.on('disconnect', () => ...)\<close>, lines 188 to 200. \<^verbatim>\<open>Map.forEach\<close> visits the
  entries in insertion order; the callback changes or deletes only the entry it is
  visiting, so the entries still to visit are those of the map at the start.
\<close>

definition remove_from_entry :: "string \<Rightarrow> jsval \<Rightarrow> connections \<Rightarrow> registry \<Rightarrow> registry" where
  "remove_from_entry socket_id vehicleId connections m =
     (if set_has connections (SocketId socket_id)
      then (let m1 = mutate_set m vehicleId (\<lambda>s. set_delete s (SocketId socket_id))
            in if set_size (set_delete connections (SocketId socket_id)) = 0
               then map_delete m1 vehicleId else m1)
      else m)"

fun forEach_remove :: "string \<Rightarrow> registry \<Rightarrow> registry \<Rightarrow> registry" where
  "forEach_remove socket_id [] m = m"
| "forEach_remove socket_id ((vehicleId, connections) # entries) m =
     forEach_remove socket_id entries (remove_from_entry socket_id vehicleId connections m)"

definition on_disconnect :: "string \<Rightarrow> server \<Rightarrow> server" where
  "on_disconnect socket_id st =
     st\<lparr>vehicleConnections :=
          forEach_remove socket_id (vehicleConnections st) (vehicleConnections st)\<rparr>"

section \<open>The REST handler of routes/performanceData.js\<close>

text \<open>\<^verbatim>\<open>connections.forEach(ws => { if (ws.readyState === WebSocket.OPEN) ws.send(message) })\<close>,
  lines 81 to 85.\<close>

fun forEach_send :: "connections \<Rightarrow> telemetry \<Rightarrow> server \<Rightarrow> server" where
  "forEach_send [] message st = st"
| "forEach_send (ws # rest) message st =
     forEach_send rest message
       (if readyState ws = WebSocket_OPEN then ws_send ws message st else st)"

text \<open>
  \<^verbatim>\<open>router.post('/', validateRequest(createPerformanceDataSchema), async (req, res) => ...)\<close>,
  lines 29 to 92, on the body the validation middleware lets through. The object
  \<^verbatim>\<open>performanceData\<close> has no \<^verbatim>\<open>timestamp\<close> key (\<open>JUndefined\<close>). \<open>now_res\<close> is the clock
  reading of the response helper, \<open>now_msg\<close> the one of
  \<^verbatim>\<open>timestamp: new Date().toISOString()\<close> in the message.
\<close>

definition post_performance_data ::
  "telemetry \<Rightarrow> string \<Rightarrow> string \<Rightarrow> db_reply \<Rightarrow> server \<Rightarrow> server" where
  "post_performance_data body now_res now_msg reply st =
     (let performanceData =
            \<lparr>vehicle_id = vehicle_id body,
             rpm = rpm body,
             speed = speed body,
             batteryVoltage = batteryVoltage body,
             fuelTankLevel = fuelTankLevel body,
             intakeAirTemp = intakeAirTemp body,
             coolantTemp = coolantTemp body,
             engineTemp = engineTemp body,
             fuelConsumption = fuelConsumption body,
             timestamp = JUndefined\<rparr>;
          st1 = supabase_insert performanceData st
      in case reply of
           DbThrow \<Rightarrow> errorResponse 500 ''Failed to store performance data'' now_res st1
         | DbError e \<Rightarrow> errorResponse 500 ''Failed to store performance data'' now_res st1
         | DbData data \<Rightarrow>
             (let st2 = createdResponse ''Performance data stored successfully'' data now_res st1
              in case map_get (vehicleConnections st2) (vehicle_id body) of
                   None \<Rightarrow> st2
                 | Some connections \<Rightarrow>
                     if set_size connections > 0
                     then forEach_send connections
                            (performanceData\<lparr>timestamp := JStr now_msg\<rparr>) st2
                     else st2))"

section \<open>Sequences of events\<close>

datatype input =
    SubscribeVehicle string jsval
  | UnsubscribeVehicle string jsval
  | PerformanceData string "telemetry option" string db_reply
  | Disconnect string
  | PostPerformanceData telemetry string string db_reply

fun handle :: "server \<Rightarrow> input \<Rightarrow> server" where
  "handle st (SubscribeVehicle socket_id vehicleId) = on_subscribe_vehicle socket_id vehicleId st"
| "handle st (UnsubscribeVehicle socket_id vehicleId) = on_unsubscribe_vehicle socket_id vehicleId st"
| "handle st (PerformanceData socket_id data now reply) = on_performance_data socket_id data now reply st"
| "handle st (Disconnect socket_id) = on_disconnect socket_id st"
| "handle st (PostPerformanceData body now_res now_msg reply) =
     post_performance_data body now_res now_msg reply st"

definition run :: "input list \<Rightarrow> server" where
  "run inputs = foldl handle initial inputs"

section \<open>Observations of the registry\<close>

text \<open>The subscribers of a vehicle: the set \<^verbatim>\<open>vehicleConnections.get(vehicleId)\<close>, or the
  empty set when the vehicle is not a key.\<close>

definition subscribersOf :: "registry \<Rightarrow> jsval \<Rightarrow> connections" where
  "subscribersOf m vehicleId = (case map_get m vehicleId of None \<Rightarrow> [] | Some connections \<Rightarrow> connections)"

text \<open>The keys of the map, in the order \<^verbatim>\<open>forEach\<close> and \<^verbatim>\<open>keys()\<close> enumerate them.\<close>

definition tracked_vehicles :: "registry \<Rightarrow> jsval list" where
  "tracked_vehicles m = map fst m"

text \<open>No entry of the map holds an empty set.\<close>

definition no_empty_set :: "registry \<Rightarrow> bool" where
  "no_empty_set m = list_all (\<lambda>e. snd e \<noteq> []) m"

text \<open>The keys are distinct, as those of a \<^verbatim>\<open>Map\<close> are, and no entry holds an empty set.\<close>

definition registry_ok :: "registry \<Rightarrow> bool" where
  "registry_ok m = (distinct (map fst m) \<and> no_empty_set m)"

text \<open>The connection is in the set of the vehicle.\<close>

definition subscribed :: "server \<Rightarrow> jsval \<Rightarrow> string \<Rightarrow> bool" where
  "subscribed st vehicleId socket_id =
     (SocketId socket_id \<in> set (subscribersOf (vehicleConnections st) vehicleId))"

text \<open>A subscribe or unsubscribe event of one connection for one vehicle.\<close>

datatype call = Subscribe | Unsubscribe

fun apply_call :: "string \<Rightarrow> jsval \<Rightarrow> server \<Rightarrow> call \<Rightarrow> server" where
  "apply_call socket_id vehicleId st Subscribe = on_subscribe_vehicle socket_id vehicleId st"
| "apply_call socket_id vehicleId st Unsubscribe = on_unsubscribe_vehicle socket_id vehicleId st"

text \<open>A member that is a socket identifier, as the socket handlers store them.\<close>

fun is_socket_id :: "member \<Rightarrow> bool" where
  "is_socket_id (SocketId s) = True"
| "is_socket_id (WsObject ref state) = False"

definition only_socket_ids :: "registry \<Rightarrow> bool" where
  "only_socket_ids m = list_all (\<lambda>e. list_all is_socket_id (snd e)) m"

section \<open>Sample data\<close>

text \<open>The sample \<^verbatim>\<open>{vehicle_id: "veh-1", rpm: 2500, speed: 80}\<close> and the row the database
  stores for it.\<close>

definition sample_veh1 :: telemetry where
  "sample_veh1 =
     \<lparr>vehicle_id = JStr ''veh-1'', rpm = JNum 2500, speed = JNum 80,
      batteryVoltage = JUndefined, fuelTankLevel = JUndefined, intakeAirTemp = JUndefined,
      coolantTemp = JUndefined, engineTemp = JUndefined, fuelConsumption = JUndefined,
      timestamp = JUndefined\<rparr>"

definition stored_veh1 :: stored_row where
  "stored_veh1 =
     \<lparr>row_id = JNum 7,
      row = \<lparr>vehicle_id = JStr ''veh-1'', rpm = JNum 2500, speed = JNum 80,
             batteryVoltage = JNull, fuelTankLevel = JNull, intakeAirTemp = JNull,
             coolantTemp = JNull, engineTemp = JNull, fuelConsumption = JNull,
             timestamp = JStr ''2026-11-01T12:00:00.001Z''\<rparr>\<rparr>"

text \<open>A vehicle at rest with the engine off: \<^verbatim>\<open>{vehicle_id: "veh-1", rpm: 0, speed: 0,
  coolantTemp: 90}\<close>.\<close>

definition idle_sample :: telemetry where
  "idle_sample =
     \<lparr>vehicle_id = JStr ''veh-1'', rpm = JNum 0, speed = JNum 0,
      batteryVoltage = JUndefined, fuelTankLevel = JUndefined, intakeAirTemp = JUndefined,
      coolantTemp = JNum 90, engineTemp = JUndefined, fuelConsumption = JUndefined,
      timestamp = JUndefined\<rparr>"

text \<open>A sample that carries a timestamp of its own.\<close>

definition dated_sample :: telemetry where
  "dated_sample =
     \<lparr>vehicle_id = JStr ''veh-1'', rpm = JNum 2500, speed = JNum 80,
      batteryVoltage = JUndefined, fuelTankLevel = JUndefined, intakeAirTemp = JUndefined,
      coolantTemp = JUndefined, engineTemp = JUndefined, fuelConsumption = JUndefined,
      timestamp = JStr ''2020-01-01T00:00:00.000Z''\<rparr>"

text \<open>A sample whose vehicle identifier is a UUID, as the validation schema of the REST
  route requires, and the row the database stores for it.\<close>

definition vehicle_uuid :: string where
  "vehicle_uuid = ''123e4567-e89b-42d3-a456-426614174000''"

definition sample_uuid :: telemetry where
  "sample_uuid =
     \<lparr>vehicle_id = JStr vehicle_uuid, rpm = JNum 2500, speed = JNum 80,
      batteryVoltage = JUndefined, fuelTankLevel = JUndefined, intakeAirTemp = JUndefined,
      coolantTemp = JUndefined, engineTemp = JUndefined, fuelConsumption = JUndefined,
      timestamp = JUndefined\<rparr>"

definition stored_uuid :: stored_row where
  "stored_uuid =
     \<lparr>row_id = JNum 8,
      row = \<lparr>vehicle_id = JStr vehicle_uuid, rpm = JNum 2500, speed = JNum 80,
             batteryVoltage = JNull, fuelTankLevel = JNull, intakeAirTemp = JNull,
             coolantTemp = JNull, engineTemp = JNull, fuelConsumption = JNull,
             timestamp = JStr ''2026-11-01T12:00:00.001Z''\<rparr>\<rparr>"

section \<open>Lookup after the operations on Map and Set\<close>

lemma map_get_map_set: "map_get (map_set m k v) k' = (if k' = k then Some v else map_get m k')"
  by (induction m) (auto simp: map_get_def)

lemma map_get_mutate_set:
  "map_get (mutate_set m k f) k' = (if k' = k then map_option f (map_get m k) else map_get m k')"
  by (induction m) (auto simp: map_get_def)

lemma map_get_map_delete: "map_get (map_delete m k) k' = (if k' = k then None else map_get m k')"
  by (induction m) (auto simp: map_get_def map_delete_def)

lemma map_has_keys: "map_has m k = (k \<in> set (map fst m))"
  by (induction m) (auto simp: map_has_def)

lemma map_has_map_get: "map_has m k = (map_get m k \<noteq> None)"
  by (simp add: map_has_def map_get_def)

lemma keys_mutate_set: "map fst (mutate_set m k f) = map fst m"
  by (induction m) auto

lemma keys_map_delete: "map fst (map_delete m k) = removeAll k (map fst m)"
  by (induction m) (auto simp: map_delete_def)

lemma map_set_new: "k \<notin> set (map fst m) \<Longrightarrow> map_set m k v = m @ [(k, v)]"
  by (induction m) auto

lemma mutate_set_append_new:
  "k \<notin> set (map fst m) \<Longrightarrow> mutate_set (m @ [(k, s)]) k f = m @ [(k, f s)]"
  by (induction m) auto

lemma map_delete_mutate_set: "map_delete (mutate_set m k f) k = map_delete m k"
  by (induction m) (auto simp: map_delete_def)

lemma mutate_set_id: "map_get m k = Some s \<Longrightarrow> f s = s \<Longrightarrow> mutate_set m k f = m"
  by (induction m) (auto simp: map_get_def split: if_splits)

lemma list_all_mutate_set:
  "list_all P m \<Longrightarrow> map_get m k = Some s \<Longrightarrow> P (k, f s) \<Longrightarrow> list_all P (mutate_set m k f)"
  by (induction m) (auto simp: map_get_def split: if_splits)

lemma list_all_map_delete: "list_all P m \<Longrightarrow> list_all P (map_delete m k)"
  by (induction m) (auto simp: map_delete_def)

section \<open>The registry after subscribe, unsubscribe and disconnect\<close>

lemma track_connection_eq:
  "track_connection m v c =
     (if v \<in> set (map fst m) then mutate_set m v (\<lambda>s. set_add s (SocketId c))
      else m @ [(v, [SocketId c])])"
  by (simp add: track_connection_def map_has_keys map_set_new mutate_set_append_new set_add_def)

lemma untrack_connection_eq:
  "untrack_connection m v c =
     (case map_get m v of None \<Rightarrow> m
      | Some s \<Rightarrow> if removeAll (SocketId c) s = [] then map_delete m v
                  else mutate_set m v (removeAll (SocketId c)))"
  by (simp add: untrack_connection_def set_size_def set_delete_def map_delete_mutate_set
           split: option.splits)

lemma map_get_track_connection:
  "map_get (track_connection m v c) v' =
     (if v' = v then Some (set_add (subscribersOf m v) (SocketId c)) else map_get m v')"
  by (auto simp: track_connection_def map_get_mutate_set map_get_map_set map_has_map_get
        subscribersOf_def set_add_def)

lemma map_get_untrack_connection:
  "map_get (untrack_connection m v c) v' =
     (if v' = v then
        (case map_get m v of None \<Rightarrow> None
         | Some s \<Rightarrow> if removeAll (SocketId c) s = [] then None
                     else Some (removeAll (SocketId c) s))
      else map_get m v')"
  by (auto simp: untrack_connection_eq map_get_mutate_set map_get_map_delete split: option.splits)

lemma distinct_track_connection:
  "distinct (map fst m) \<Longrightarrow> distinct (map fst (track_connection m v c))"
  by (simp add: track_connection_eq keys_mutate_set)

lemma distinct_untrack_connection:
  "distinct (map fst m) \<Longrightarrow> distinct (map fst (untrack_connection m v c))"
  by (simp add: untrack_connection_eq keys_mutate_set keys_map_delete distinct_removeAll
        split: option.splits)

lemma no_empty_track_connection:
  "no_empty_set m \<Longrightarrow> no_empty_set (track_connection m v c)"
proof (cases "v \<in> set (map fst m)")
  case True
  assume ok: "no_empty_set m"
  from True have "map_has m v"
    by (simp add: map_has_keys)
  then obtain s where s: "map_get m v = Some s"
    by (auto simp: map_has_map_get)
  have "set_add s (SocketId c) \<noteq> []"
    by (auto simp: set_add_def)
  with ok s True show ?thesis
    by (simp add: no_empty_set_def track_connection_eq list_all_mutate_set)
next
  case False
  assume "no_empty_set m"
  with False show ?thesis
    by (simp add: no_empty_set_def track_connection_eq)
qed

lemma no_empty_untrack_connection:
  "no_empty_set m \<Longrightarrow> no_empty_set (untrack_connection m v c)"
  by (auto simp: no_empty_set_def untrack_connection_eq list_all_mutate_set list_all_map_delete
        split: option.splits)

lemma remove_from_entry_eq:
  "map_get m v = Some s \<Longrightarrow>
   remove_from_entry c v s m = (if SocketId c \<in> set s then untrack_connection m v c else m)"
  by (simp add: remove_from_entry_def untrack_connection_def set_has_def)

lemma map_get_remove_from_entry:
  "map_get m v = Some s \<Longrightarrow>
   map_get (remove_from_entry c v s m) v' =
     (if v' = v \<and> SocketId c \<in> set s then
        (if removeAll (SocketId c) s = [] then None else Some (removeAll (SocketId c) s))
      else map_get m v')"
  by (simp add: remove_from_entry_eq map_get_untrack_connection)

lemma map_get_forEach_remove:
  "distinct (map fst es) \<Longrightarrow> list_all (\<lambda>e. map_get m (fst e) = Some (snd e)) es \<Longrightarrow>
   map_get (forEach_remove c es m) v =
     (case map_of es v of
        None \<Rightarrow> map_get m v
      | Some s \<Rightarrow>
          if SocketId c \<in> set s then
            (if removeAll (SocketId c) s = [] then None else Some (removeAll (SocketId c) s))
          else Some s)"
proof (induction es arbitrary: m)
  case Nil
  show ?case by simp
next
  case (Cons e es)
  obtain k s where e: "e = (k, s)" by (cases e)
  from Cons.prems e have ks: "map_get m k = Some s" and knot: "k \<notin> set (map fst es)"
    and dist: "distinct (map fst es)" by simp_all
  let ?m' = "remove_from_entry c k s m"
  have agree: "list_all (\<lambda>e. map_get ?m' (fst e) = Some (snd e)) es"
    using Cons.prems(2) knot
    by (auto simp: e list_all_iff map_get_remove_from_entry [OF ks])
  have none: "map_of es k = None"
    using knot by (simp add: map_of_eq_None_iff)
  show ?case
    using Cons.IH [OF dist agree] none ks
    by (auto simp: e map_get_remove_from_entry [OF ks] split: option.splits)
qed

lemma agree_self: "distinct (map fst m) \<Longrightarrow> list_all (\<lambda>e. map_get m (fst e) = Some (snd e)) m"
  by (auto simp: list_all_iff map_get_def)

lemma map_get_on_disconnect:
  "distinct (map fst (vehicleConnections st)) \<Longrightarrow>
   map_get (vehicleConnections (on_disconnect c st)) v =
     (case map_get (vehicleConnections st) v of
        None \<Rightarrow> None
      | Some s \<Rightarrow>
          if SocketId c \<in> set s then
            (if removeAll (SocketId c) s = [] then None else Some (removeAll (SocketId c) s))
          else Some s)"
  by (simp add: on_disconnect_def map_get_forEach_remove agree_self)
     (simp add: map_get_def split: option.splits)

lemma forEach_remove_preserves:
  "distinct (map fst es) \<Longrightarrow> list_all (\<lambda>e. map_get m (fst e) = Some (snd e)) es \<Longrightarrow>
   distinct (map fst m) \<Longrightarrow> no_empty_set m \<Longrightarrow>
   distinct (map fst (forEach_remove c es m)) \<and> no_empty_set (forEach_remove c es m)"
proof (induction es arbitrary: m)
  case Nil
  then show ?case by simp
next
  case (Cons e es)
  obtain k s where e: "e = (k, s)" by (cases e)
  from Cons.prems e have ks: "map_get m k = Some s" and knot: "k \<notin> set (map fst es)"
    and dist: "distinct (map fst es)" by simp_all
  let ?m' = "remove_from_entry c k s m"
  have agree: "list_all (\<lambda>e. map_get ?m' (fst e) = Some (snd e)) es"
    using Cons.prems(2) knot
    by (auto simp: e list_all_iff map_get_remove_from_entry [OF ks])
  have d': "distinct (map fst ?m')"
    using Cons.prems(3) by (simp add: remove_from_entry_eq [OF ks] distinct_untrack_connection)
  have n': "no_empty_set ?m'"
    using Cons.prems(4) by (simp add: remove_from_entry_eq [OF ks] no_empty_untrack_connection)
  show ?case
    using Cons.IH [OF dist agree d' n'] by (simp add: e)
qed

section \<open>The registry invariant\<close>

lemma vehicleConnections_forEach_send:
  "vehicleConnections (forEach_send s message st) = vehicleConnections st"
  by (induction s arbitrary: st) (simp_all add: ws_send_def)

lemma vehicleConnections_on_performance_data:
  "vehicleConnections (on_performance_data c data now reply st) = vehicleConnections st"
  by (simp add: on_performance_data_def emit_def supabase_insert_def Let_def
        split: option.splits db_reply.splits)

lemma vehicleConnections_post_performance_data:
  "vehicleConnections (post_performance_data body now_res now_msg reply st) = vehicleConnections st"
  by (simp add: post_performance_data_def supabase_insert_def errorResponse_def
        createdResponse_def successResponse_def vehicleConnections_forEach_send Let_def
        split: option.splits db_reply.splits)

lemma vehicleConnections_on_subscribe_vehicle:
  "vehicleConnections (on_subscribe_vehicle c v st) =
     (if truthy v then track_connection (vehicleConnections st) v c else vehicleConnections st)"
  by (simp add: on_subscribe_vehicle_def emit_def)

lemma vehicleConnections_on_unsubscribe_vehicle:
  "vehicleConnections (on_unsubscribe_vehicle c v st) =
     (if truthy v then untrack_connection (vehicleConnections st) v c else vehicleConnections st)"
  by (simp add: on_unsubscribe_vehicle_def emit_def)

lemma registry_ok_on_disconnect:
  "registry_ok (vehicleConnections st) \<Longrightarrow> registry_ok (vehicleConnections (on_disconnect c st))"
  using forEach_remove_preserves [of "vehicleConnections st" "vehicleConnections st" c]
  by (simp add: registry_ok_def on_disconnect_def agree_self)

lemma registry_ok_handle:
  "registry_ok (vehicleConnections st) \<Longrightarrow> registry_ok (vehicleConnections (handle st i))"
proof (cases i)
  case (SubscribeVehicle c v)
  assume "registry_ok (vehicleConnections st)"
  then show ?thesis
    by (simp add: SubscribeVehicle vehicleConnections_on_subscribe_vehicle registry_ok_def
          distinct_track_connection no_empty_track_connection)
next
  case (UnsubscribeVehicle c v)
  assume "registry_ok (vehicleConnections st)"
  then show ?thesis
    by (simp add: UnsubscribeVehicle vehicleConnections_on_unsubscribe_vehicle registry_ok_def
          distinct_untrack_connection no_empty_untrack_connection)
next
  case (PerformanceData c d now reply)
  assume "registry_ok (vehicleConnections st)"
  then show ?thesis
    by (simp add: PerformanceData vehicleConnections_on_performance_data)
next
  case (Disconnect c)
  assume "registry_ok (vehicleConnections st)"
  then show ?thesis
    by (simp add: Disconnect registry_ok_on_disconnect)
next
  case (PostPerformanceData body t1 t2 reply)
  assume "registry_ok (vehicleConnections st)"
  then show ?thesis
    by (simp add: PostPerformanceData vehicleConnections_post_performance_data)
qed

lemma registry_ok_foldl:
  "registry_ok (vehicleConnections st) \<Longrightarrow>
   registry_ok (vehicleConnections (foldl handle st inputs))"
  by (induction inputs arbitrary: st) (simp_all add: registry_ok_handle)

lemma registry_ok_run: "registry_ok (vehicleConnections (run inputs))"
  unfolding run_def by (rule registry_ok_foldl) (simp add: registry_ok_def no_empty_set_def initial_def)

lemma no_empty_set_map_get: "no_empty_set m \<Longrightarrow> map_get m v \<noteq> Some []"
proof
  assume ok: "no_empty_set m" and "map_get m v = Some []"
  then have "(v, []) \<in> set m"
    by (simp add: map_get_def map_of_SomeD)
  with ok show False
    by (auto simp: no_empty_set_def list_all_iff)
qed

text \<open>
  C4. After every sequence of events from the empty registry (subscribe, unsubscribe,
  disconnect, and the two ingest events, in any order and for any connections and
  vehicles), no entry of the map holds an empty set: a vehicle identifier is a key
  exactly when its set of subscribers is not empty.
\<close>

theorem registry_never_holds_an_empty_set:
  "no_empty_set (vehicleConnections (run inputs)) \<and>
   map_get (vehicleConnections (run inputs)) v \<noteq> Some [] \<and>
   map_has (vehicleConnections (run inputs)) v =
     (subscribersOf (vehicleConnections (run inputs)) v \<noteq> [])"
proof -
  have ok: "no_empty_set (vehicleConnections (run inputs))"
    using registry_ok_run [of inputs] by (simp add: registry_ok_def)
  have ne: "map_get (vehicleConnections (run inputs)) v \<noteq> Some []"
    using ok by (rule no_empty_set_map_get)
  have "map_has (vehicleConnections (run inputs)) v =
     (subscribersOf (vehicleConnections (run inputs)) v \<noteq> [])"
    using ne by (cases "map_get (vehicleConnections (run inputs)) v")
      (simp_all add: map_has_map_get subscribersOf_def)
  with ok ne show ?thesis by simp
qed

section \<open>Disconnect\<close>

text \<open>
  C5. For every registry (a map: its keys are distinct) and every connection \<open>c\<close>,
  after the disconnect handler has run for \<open>c\<close> no vehicle has \<open>c\<close> among its
  subscribers, and a vehicle whose set held \<open>c\<close> and is empty without it is no longer
  a key of the map.
\<close>

theorem disconnect_removes_connection_everywhere:
  assumes "distinct (tracked_vehicles (vehicleConnections st))"
  shows "SocketId c \<notin> set (subscribersOf (vehicleConnections (on_disconnect c st)) v) \<and>
         (map_get (vehicleConnections st) v = Some s \<and> SocketId c \<in> set s \<and>
          set_delete s (SocketId c) = [] \<longrightarrow>
            v \<notin> set (tracked_vehicles (vehicleConnections (on_disconnect c st))))"
proof -
  have d: "distinct (map fst (vehicleConnections st))"
    using assms by (simp add: tracked_vehicles_def)
  have 1: "SocketId c \<notin> set (subscribersOf (vehicleConnections (on_disconnect c st)) v)"
    by (simp add: subscribersOf_def map_get_on_disconnect [OF d] split: option.splits)
  have 2: "v \<notin> set (tracked_vehicles (vehicleConnections (on_disconnect c st)))"
    if "map_get (vehicleConnections st) v = Some s" "SocketId c \<in> set s"
       "set_delete s (SocketId c) = []"
  proof -
    have "map_get (vehicleConnections (on_disconnect c st)) v = None"
      using that by (simp add: map_get_on_disconnect [OF d] set_delete_def)
    then have "\<not> map_has (vehicleConnections (on_disconnect c st)) v"
      by (simp add: map_has_map_get)
    then show ?thesis
      by (simp only: tracked_vehicles_def map_has_keys) simp
  qed
  from 1 2 show ?thesis by blast
qed

theorem disconnect_removes_connection_everywhere_witness:
  "distinct (tracked_vehicles
     [(JStr ''veh-2'', [SocketId ''B'']), (JStr ''veh-1'', [SocketId ''A'', SocketId ''B''])]) \<and>
   map_get [(JStr ''veh-2'', [SocketId ''B'']), (JStr ''veh-1'', [SocketId ''A'', SocketId ''B''])]
     (JStr ''veh-2'') = Some [SocketId ''B''] \<and>
   set_delete [SocketId ''B''] (SocketId ''B'') = [] \<and>
   SocketId ''B'' \<notin> set (subscribersOf (vehicleConnections (on_disconnect ''B''
     (initial\<lparr>vehicleConnections :=
        [(JStr ''veh-2'', [SocketId ''B'']), (JStr ''veh-1'', [SocketId ''A'', SocketId ''B''])]\<rparr>)))
     (JStr ''veh-2'')) \<and>
   JStr ''veh-2'' \<notin> set (tracked_vehicles (vehicleConnections (on_disconnect ''B''
     (initial\<lparr>vehicleConnections :=
        [(JStr ''veh-2'', [SocketId ''B'']), (JStr ''veh-1'', [SocketId ''A'', SocketId ''B''])]\<rparr>))))"
  using disconnect_removes_connection_everywhere
    [of "initial\<lparr>vehicleConnections :=
        [(JStr ''veh-2'', [SocketId ''B'']), (JStr ''veh-1'', [SocketId ''A'', SocketId ''B''])]\<rparr>"
        "''B''" "JStr ''veh-2''" "[SocketId ''B'']"]
  by (simp add: tracked_vehicles_def map_get_def set_delete_def)

section \<open>Subscribe and unsubscribe\<close>

lemma subscribed_on_subscribe_vehicle:
  "subscribed (on_subscribe_vehicle c v st) v c = (truthy v \<or> subscribed st v c)"
  by (simp add: subscribed_def vehicleConnections_on_subscribe_vehicle subscribersOf_def
        map_get_track_connection set_add_def)

lemma subscribed_on_unsubscribe_vehicle:
  "subscribed (on_unsubscribe_vehicle c v st) v c = (subscribed st v c \<and> \<not> truthy v)"
  by (simp add: subscribed_def vehicleConnections_on_unsubscribe_vehicle subscribersOf_def
        map_get_untrack_connection split: option.splits)

lemma falsy_calls_keep_registry:
  "\<not> truthy v \<Longrightarrow> vehicleConnections (foldl (apply_call c v) st calls) = vehicleConnections st"
proof (induction calls arbitrary: st)
  case Nil
  show ?case by simp
next
  case (Cons x xs)
  then show ?case
    by (cases x)
       (simp_all add: vehicleConnections_on_subscribe_vehicle
          vehicleConnections_on_unsubscribe_vehicle)
qed

lemma subscribed_apply_call:
  "subscribed (apply_call c v st x) v c =
     (if truthy v then x = Subscribe else subscribed st v c)"
  by (cases x) (simp_all add: subscribed_on_subscribe_vehicle subscribed_on_unsubscribe_vehicle)

lemma track_connection_twice:
  "track_connection (track_connection m v c) v c = track_connection m v c"
proof -
  have "map_has (track_connection m v c) v"
    by (simp add: map_has_map_get map_get_track_connection)
  then have "v \<in> set (map fst (track_connection m v c))"
    by (simp only: map_has_keys)
  then have "track_connection (track_connection m v c) v c =
      mutate_set (track_connection m v c) v (\<lambda>s. set_add s (SocketId c))"
    by (simp add: track_connection_eq [of "track_connection m v c"])
  also have "\<dots> = track_connection m v c"
    by (rule mutate_set_id [where s = "set_add (subscribersOf m v) (SocketId c)"])
       (simp_all add: map_get_track_connection set_add_def)
  finally show ?thesis .
qed

text \<open>
  C6. For every state and every non-empty sequence of subscribe and unsubscribe events of
  one connection for one vehicle, the connection is subscribed at the end exactly when it
  is after the last event of the sequence alone. Subscribing twice leaves the registry
  as subscribing once does, and an unsubscribe never makes a connection subscribed: a
  pair that is not subscribed stays so.
\<close>

theorem last_call_decides_membership:
  assumes "calls \<noteq> []"
  shows "subscribed (foldl (apply_call c v) st calls) v c =
           subscribed (apply_call c v st (last calls)) v c \<and>
         vehicleConnections (on_subscribe_vehicle c v (on_subscribe_vehicle c v st)) =
           vehicleConnections (on_subscribe_vehicle c v st) \<and>
         subscribed (on_unsubscribe_vehicle c v st) v c = (subscribed st v c \<and> \<not> truthy v)"
proof -
  from assms obtain xs x where calls: "calls = xs @ [x]"
    by (cases calls rule: rev_cases) auto
  have 1: "subscribed (foldl (apply_call c v) st calls) v c =
           subscribed (apply_call c v st (last calls)) v c"
  proof (cases "truthy v")
    case True
    then show ?thesis by (simp add: calls subscribed_apply_call)
  next
    case False
    then have "subscribed (foldl (apply_call c v) st xs) v c = subscribed st v c"
      by (simp add: subscribed_def falsy_calls_keep_registry)
    with False show ?thesis by (simp add: calls subscribed_apply_call)
  qed
  have 2: "vehicleConnections (on_subscribe_vehicle c v (on_subscribe_vehicle c v st)) =
           vehicleConnections (on_subscribe_vehicle c v st)"
    by (simp add: vehicleConnections_on_subscribe_vehicle track_connection_twice)
  from 1 2 show ?thesis
    by (simp add: subscribed_on_unsubscribe_vehicle)
qed

theorem last_call_decides_membership_witness:
  "[Subscribe, Unsubscribe, Subscribe] \<noteq> [] \<and>
   subscribed (foldl (apply_call ''A'' (JStr ''veh-1'')) initial [Subscribe, Unsubscribe, Subscribe])
     (JStr ''veh-1'') ''A'' \<and>
   \<not> subscribed (foldl (apply_call ''A'' (JStr ''veh-1'')) initial [Subscribe, Subscribe, Unsubscribe])
     (JStr ''veh-1'') ''A''"
  using last_call_decides_membership
      [of "[Subscribe, Unsubscribe, Subscribe]" "''A''" "JStr ''veh-1''" initial]
    last_call_decides_membership
      [of "[Subscribe, Subscribe, Unsubscribe]" "''A''" "JStr ''veh-1''" initial]
  by (simp add: subscribed_on_subscribe_vehicle subscribed_on_unsubscribe_vehicle)

text \<open>
  C7. For every vehicle identifier the handler accepts and every connection, unsubscribe
  takes the connection out of the set of the vehicle; the vehicle stays a key exactly
  when the set without the connection is not empty, and then holds that set; when the
  pair is not subscribed the registry is left as it was (in a registry with no empty
  set), and the reply is the \<^verbatim>\<open>unsubscribed\<close> event, not an error.
\<close>

theorem unsubscribe_removes_connection:
  assumes "truthy v"
  shows "SocketId c \<notin> set (subscribersOf (vehicleConnections (on_unsubscribe_vehicle c v st)) v) \<and>
         map_get (vehicleConnections (on_unsubscribe_vehicle c v st)) v =
           (case map_get (vehicleConnections st) v of
              None \<Rightarrow> None
            | Some s \<Rightarrow> if set_delete s (SocketId c) = [] then None
                        else Some (set_delete s (SocketId c))) \<and>
         (no_empty_set (vehicleConnections st) \<and> \<not> subscribed st v c \<longrightarrow>
            vehicleConnections (on_unsubscribe_vehicle c v st) = vehicleConnections st) \<and>
         emitted (on_unsubscribe_vehicle c v st) = emitted st @ [(c, EvUnsubscribed v)]"
proof -
  let ?m = "vehicleConnections st"
  have vc: "vehicleConnections (on_unsubscribe_vehicle c v st) = untrack_connection ?m v c"
    using assms by (simp add: vehicleConnections_on_unsubscribe_vehicle)
  have 1: "SocketId c \<notin> set (subscribersOf (untrack_connection ?m v c) v)"
    by (simp add: subscribersOf_def map_get_untrack_connection split: option.splits)
  have 2: "map_get (untrack_connection ?m v c) v =
           (case map_get ?m v of
              None \<Rightarrow> None
            | Some s \<Rightarrow> if set_delete s (SocketId c) = [] then None
                        else Some (set_delete s (SocketId c)))"
    by (simp add: map_get_untrack_connection set_delete_def split: option.splits)
  have 3: "untrack_connection ?m v c = ?m"
    if ok: "no_empty_set ?m" and not: "\<not> subscribed st v c"
  proof (cases "map_get ?m v")
    case None
    then show ?thesis by (simp add: untrack_connection_eq)
  next
    case (Some s)
    from not Some have notin: "SocketId c \<notin> set s"
      by (simp add: subscribed_def subscribersOf_def)
    from ok Some have "s \<noteq> []"
      using no_empty_set_map_get [of ?m v] by auto
    with notin Some show ?thesis
      by (simp add: untrack_connection_eq mutate_set_id)
  qed
  have 4: "emitted (on_unsubscribe_vehicle c v st) = emitted st @ [(c, EvUnsubscribed v)]"
    using assms by (simp add: on_unsubscribe_vehicle_def emit_def)
  from 1 2 3 4 show ?thesis
    by (simp add: vc)
qed

theorem unsubscribe_removes_connection_witness:
  "truthy (JStr ''veh-1'') \<and>
   vehicleConnections (on_unsubscribe_vehicle ''A'' (JStr ''veh-1'')
     (initial\<lparr>vehicleConnections := [(JStr ''veh-1'', [SocketId ''A''])]\<rparr>)) = [] \<and>
   no_empty_set [(JStr ''veh-1'', [SocketId ''A''])] \<and>
   \<not> subscribed (initial\<lparr>vehicleConnections := [(JStr ''veh-1'', [SocketId ''A''])]\<rparr>)
       (JStr ''veh-1'') ''B'' \<and>
   vehicleConnections (on_unsubscribe_vehicle ''B'' (JStr ''veh-1'')
     (initial\<lparr>vehicleConnections := [(JStr ''veh-1'', [SocketId ''A''])]\<rparr>)) =
     [(JStr ''veh-1'', [SocketId ''A''])] \<and>
   emitted (on_unsubscribe_vehicle ''B'' (JStr ''veh-1'')
     (initial\<lparr>vehicleConnections := [(JStr ''veh-1'', [SocketId ''A''])]\<rparr>)) =
     [(''B'', EvUnsubscribed (JStr ''veh-1''))]"
  using unsubscribe_removes_connection
      [of "JStr ''veh-1''" "''A''" "initial\<lparr>vehicleConnections := [(JStr ''veh-1'', [SocketId ''A''])]\<rparr>"]
    unsubscribe_removes_connection
      [of "JStr ''veh-1''" "''B''" "initial\<lparr>vehicleConnections := [(JStr ''veh-1'', [SocketId ''A''])]\<rparr>"]
  by (simp add: no_empty_set_def subscribed_def subscribersOf_def map_get_def set_delete_def
        initial_def on_unsubscribe_vehicle_def untrack_connection_def emit_def set_size_def
        map_delete_def)

text \<open>
  C10. An \<^verbatim>\<open>unsubscribe-vehicle\<close> event with a missing or empty vehicle identifier
  changes nothing: the registry and every log of the state are as before, so no event
  is emitted to the caller. The \<^verbatim>\<open>subscribe-vehicle\<close> event with such an identifier
  emits an \<^verbatim>\<open>error\<close> event and changes nothing else.
\<close>

theorem unsubscribe_without_vehicle_is_ignored:
  assumes "\<not> truthy v"
  shows "on_unsubscribe_vehicle c v st = st \<and>
         on_subscribe_vehicle c v st =
           st\<lparr>emitted := emitted st @ [(c, EvError ''Vehicle ID is required'')]\<rparr>"
  using assms by (simp add: on_unsubscribe_vehicle_def on_subscribe_vehicle_def emit_def)

theorem unsubscribe_without_vehicle_is_ignored_witness:
  "\<not> truthy JUndefined \<and> \<not> truthy (JStr []) \<and>
   on_unsubscribe_vehicle ''A'' JUndefined initial = initial \<and>
   on_unsubscribe_vehicle ''A'' (JStr []) initial = initial \<and>
   emitted (on_subscribe_vehicle ''A'' JUndefined initial) =
     [(''A'', EvError ''Vehicle ID is required'')]"
  using unsubscribe_without_vehicle_is_ignored [of JUndefined "''A''" initial]
    unsubscribe_without_vehicle_is_ignored [of "JStr []" "''A''" initial]
  by (simp add: initial_def)

section \<open>The ingest handlers\<close>

lemma sent_forEach_send:
  "sent (forEach_send s message st) =
     sent st @ map (\<lambda>ws. (ws, message)) (filter (\<lambda>ws. readyState ws = WebSocket_OPEN) s)"
  by (induction s arbitrary: st) (simp_all add: ws_send_def)

lemma emitted_forEach_send: "emitted (forEach_send s message st) = emitted st"
  by (induction s arbitrary: st) (simp_all add: ws_send_def)

lemma responses_forEach_send: "responses (forEach_send s message st) = responses st"
  by (induction s arbitrary: st) (simp_all add: ws_send_def)

lemmas handler_defs =
  run_def initial_def on_subscribe_vehicle_def on_unsubscribe_vehicle_def on_disconnect_def
  on_performance_data_def post_performance_data_def track_connection_def
  untrack_connection_def remove_from_entry_def emit_def ws_send_def supabase_insert_def
  createdResponse_def successResponse_def errorResponse_def map_get_def map_has_def
  map_delete_def set_has_def set_add_def set_delete_def set_size_def js_or_def
  WebSocket_OPEN_def Let_def

text \<open>
  C2. When the insert fails (an error in the reply, or a rejected promise), the REST
  handler answers with status 500 and \<^verbatim>\<open>success: false\<close>, sends no message and emits
  no event, whatever the registry holds; the socket handler emits one
  \<^verbatim>\<open>data-error\<close> event to the sending socket, and nothing to any other socket.
\<close>

theorem persistence_failure_prevents_broadcast:
  assumes "reply = DbError e \<or> reply = DbThrow"
  shows "responses (post_performance_data body now_res now_msg reply st) =
           responses st @
             [\<lparr>res_status = 500, res_success = False,
               res_message = ''Failed to store performance data'',
               res_timestamp = now_res, res_data = None\<rparr>] \<and>
         sent (post_performance_data body now_res now_msg reply st) = sent st \<and>
         emitted (post_performance_data body now_res now_msg reply st) = emitted st \<and>
         emitted (on_performance_data c (Some d) now reply st) =
           emitted st @
             [(c, EvDataError
                    (if \<not> truthy (vehicle_id d) then ''Vehicle ID is required''
                     else if reply = DbThrow then ''Failed to process performance data''
                     else ''Failed to store performance data''))] \<and>
         sent (on_performance_data c (Some d) now reply st) = sent st \<and>
         responses (on_performance_data c (Some d) now reply st) = responses st"
  using assms
  by (auto simp: post_performance_data_def on_performance_data_def errorResponse_def
        supabase_insert_def emit_def Let_def)

theorem persistence_failure_prevents_broadcast_witness:
  "(DbError ''timeout'' = DbError ''timeout'' \<or> DbError ''timeout'' = DbThrow) \<and>
   sent (post_performance_data sample_veh1 ''t1'' ''t2'' (DbError ''timeout'')
     (initial\<lparr>vehicleConnections := [(JStr ''veh-1'', [SocketId ''A'', WsObject 1 1])]\<rparr>)) = [] \<and>
   map res_status (responses (post_performance_data sample_veh1 ''t1'' ''t2'' (DbError ''timeout'')
     (initial\<lparr>vehicleConnections := [(JStr ''veh-1'', [SocketId ''A'', WsObject 1 1])]\<rparr>))) =
     [500] \<and>
   emitted (on_performance_data ''B'' (Some sample_veh1) ''t1'' (DbError ''timeout'')
     (initial\<lparr>vehicleConnections := [(JStr ''veh-1'', [SocketId ''A'', WsObject 1 1])]\<rparr>)) =
     [(''B'', EvDataError ''Failed to store performance data'')] \<and>
   emitted (on_performance_data ''B'' (Some sample_veh1) ''t1'' DbThrow
     (initial\<lparr>vehicleConnections := [(JStr ''veh-1'', [SocketId ''A'', WsObject 1 1])]\<rparr>)) =
     [(''B'', EvDataError ''Failed to process performance data'')]"
  using persistence_failure_prevents_broadcast
      [of "DbError ''timeout''" "''timeout''" sample_veh1 "''t1''" "''t2''"
          "initial\<lparr>vehicleConnections := [(JStr ''veh-1'', [SocketId ''A'', WsObject 1 1])]\<rparr>"
          "''B''" sample_veh1 "''t1''"]
    persistence_failure_prevents_broadcast
      [of DbThrow "''timeout''" sample_veh1 "''t1''" "''t2''"
          "initial\<lparr>vehicleConnections := [(JStr ''veh-1'', [SocketId ''A'', WsObject 1 1])]\<rparr>"
          "''B''" sample_veh1 "''t1''"]
  by (simp add: initial_def sample_veh1_def)

text \<open>
  The loop of the REST handler after a successful insert, for any content of the map: one
  \<^verbatim>\<open>ws.send\<close> for every member of the set of the vehicle whose \<^verbatim>\<open>readyState\<close> is
  \<^verbatim>\<open>WebSocket.OPEN\<close>, none for the others.
\<close>

lemma sent_post_performance_data:
  "sent (post_performance_data body now_res now_msg (DbData data) st) =
     sent st @
       map (\<lambda>ws. (ws, body\<lparr>timestamp := JStr now_msg\<rparr>))
         (filter (\<lambda>ws. readyState ws = WebSocket_OPEN)
            (subscribersOf (vehicleConnections st) (vehicle_id body))) \<and>
   responses (post_performance_data body now_res now_msg (DbData data) st) =
     responses st @
       [\<lparr>res_status = 201, res_success = True,
         res_message = ''Performance data stored successfully'',
         res_timestamp = now_res, res_data = Some data\<rparr>] \<and>
   emitted (post_performance_data body now_res now_msg (DbData data) st) = emitted st"
  by (cases body)
     (simp add: post_performance_data_def supabase_insert_def createdResponse_def
        successResponse_def Let_def sent_forEach_send responses_forEach_send
        emitted_forEach_send subscribersOf_def set_size_def split: option.splits)

text \<open>
  C3 at a concrete run. The connection \<open>c1\<close> subscribes to a vehicle and stays
  connected; a sample for that vehicle is posted, and the database stores it and hands
  the row back (status 201, with the stored row in the response). The claim has a message
  with the timestamp of the stored row and the fields of the sample pushed to \<open>c1\<close>;
  the code pushes no message at all: the set of the vehicle holds the string \<open>c1\<close>,
  whose \<^verbatim>\<open>readyState\<close> is \<^verbatim>\<open>undefined\<close>, so the loop skips it as if it were closed.
\<close>

theorem rest_ingest_pushes_no_message:
  "vehicleConnections (run [SubscribeVehicle ''c1'' (JStr vehicle_uuid),
      PostPerformanceData sample_uuid ''2026-11-01T12:00:00.004Z'' ''2026-11-01T12:00:00.005Z''
        (DbData stored_uuid)]) =
     [(JStr vehicle_uuid, [SocketId ''c1''])] \<and>
   subscribed (run [SubscribeVehicle ''c1'' (JStr vehicle_uuid),
      PostPerformanceData sample_uuid ''2026-11-01T12:00:00.004Z'' ''2026-11-01T12:00:00.005Z''
        (DbData stored_uuid)]) (JStr vehicle_uuid) ''c1'' \<and>
   responses (run [SubscribeVehicle ''c1'' (JStr vehicle_uuid),
      PostPerformanceData sample_uuid ''2026-11-01T12:00:00.004Z'' ''2026-11-01T12:00:00.005Z''
        (DbData stored_uuid)]) =
     [\<lparr>res_status = 201, res_success = True,
       res_message = ''Performance data stored successfully'',
       res_timestamp = ''2026-11-01T12:00:00.004Z'', res_data = Some stored_uuid\<rparr>] \<and>
   sent (run [SubscribeVehicle ''c1'' (JStr vehicle_uuid),
      PostPerformanceData sample_uuid ''2026-11-01T12:00:00.004Z'' ''2026-11-01T12:00:00.005Z''
        (DbData stored_uuid)]) = []"
  by (simp add: handler_defs subscribed_def subscribersOf_def sample_uuid_def vehicle_uuid_def)

section \<open>What the subscribers of the socket handlers receive\<close>

text \<open>
  Every set the socket handlers build holds socket identifiers only, and the REST handler
  finds no \<^verbatim>\<open>readyState\<close> on a string: in no run of the server is a message sent.
\<close>

lemma list_all_mutate_set_closed:
  "list_all P m \<Longrightarrow> (\<And>s. P (k, s) \<Longrightarrow> P (k, f s)) \<Longrightarrow> list_all P (mutate_set m k f)"
  by (induction m) auto

lemma only_socket_ids_track_connection:
  "only_socket_ids m \<Longrightarrow> only_socket_ids (track_connection m v c)"
  by (auto simp: only_socket_ids_def track_connection_eq set_add_def
        intro: list_all_mutate_set_closed)

lemma only_socket_ids_removed:
  assumes "only_socket_ids m"
  shows "only_socket_ids (mutate_set m v (\<lambda>s. set_delete s x)) \<and>
         only_socket_ids (map_delete (mutate_set m v (\<lambda>s. set_delete s x)) v)"
proof -
  have "list_all (\<lambda>e. list_all is_socket_id (snd e)) (mutate_set m v (\<lambda>s. set_delete s x))"
    using assms unfolding only_socket_ids_def
    by (rule list_all_mutate_set_closed) (auto simp: set_delete_def list_all_iff)
  then show ?thesis
    by (simp add: only_socket_ids_def list_all_map_delete)
qed

lemma only_socket_ids_untrack_connection:
  "only_socket_ids m \<Longrightarrow> only_socket_ids (untrack_connection m v c)"
  by (simp add: untrack_connection_def only_socket_ids_removed Let_def split: option.splits)

lemma only_socket_ids_remove_from_entry:
  "only_socket_ids m \<Longrightarrow> only_socket_ids (remove_from_entry c v s m)"
  by (simp add: remove_from_entry_def only_socket_ids_removed Let_def)

lemma only_socket_ids_forEach_remove:
  "only_socket_ids m \<Longrightarrow> only_socket_ids (forEach_remove c es m)"
  by (induction es arbitrary: m) (auto simp: only_socket_ids_remove_from_entry)

lemma forEach_send_socket_ids:
  "list_all is_socket_id s \<Longrightarrow> forEach_send s message st = st"
proof (induction s arbitrary: st)
  case Nil
  show ?case by simp
next
  case (Cons x xs)
  then show ?case by (cases x) (simp_all add: WebSocket_OPEN_def)
qed

lemma only_socket_ids_map_get:
  "only_socket_ids m \<Longrightarrow> map_get m v = Some s \<Longrightarrow> list_all is_socket_id s"
proof -
  assume ok: "only_socket_ids m" and "map_get m v = Some s"
  then have "(v, s) \<in> set m"
    by (simp add: map_get_def map_of_SomeD)
  with ok show ?thesis
    by (auto simp: only_socket_ids_def list_all_iff)
qed

lemma sent_handle:
  "only_socket_ids (vehicleConnections st) \<Longrightarrow>
   sent (handle st i) = sent st \<and> only_socket_ids (vehicleConnections (handle st i))"
proof (cases i)
  case (SubscribeVehicle c v)
  assume "only_socket_ids (vehicleConnections st)"
  then show ?thesis
    by (simp add: SubscribeVehicle on_subscribe_vehicle_def emit_def
          only_socket_ids_track_connection)
next
  case (UnsubscribeVehicle c v)
  assume "only_socket_ids (vehicleConnections st)"
  then show ?thesis
    by (simp add: UnsubscribeVehicle on_unsubscribe_vehicle_def emit_def
          only_socket_ids_untrack_connection)
next
  case (PerformanceData c d now reply)
  assume "only_socket_ids (vehicleConnections st)"
  then show ?thesis
    by (simp add: PerformanceData vehicleConnections_on_performance_data)
       (simp add: on_performance_data_def emit_def supabase_insert_def Let_def
          split: option.splits db_reply.splits)
next
  case (Disconnect c)
  assume "only_socket_ids (vehicleConnections st)"
  then show ?thesis
    by (simp add: Disconnect on_disconnect_def only_socket_ids_forEach_remove)
next
  case (PostPerformanceData body t1 t2 reply)
  assume ok: "only_socket_ids (vehicleConnections st)"
  have "sent (post_performance_data body t1 t2 reply st) = sent st"
    using only_socket_ids_map_get [OF ok]
    by (simp add: post_performance_data_def supabase_insert_def errorResponse_def
          createdResponse_def successResponse_def Let_def forEach_send_socket_ids
          split: option.splits db_reply.splits)
  with ok show ?thesis
    by (simp add: PostPerformanceData vehicleConnections_post_performance_data)
qed

lemma sent_foldl_handle:
  "only_socket_ids (vehicleConnections st) \<Longrightarrow> sent (foldl handle st inputs) = sent st"
  by (induction inputs arbitrary: st) (simp_all add: sent_handle)

lemma no_run_ever_sends: "sent (run inputs) = []"
  unfolding run_def
  by (subst sent_foldl_handle) (simp_all add: only_socket_ids_def initial_def)

text \<open>
  C1 at a concrete run. The connections \<open>c1\<close> and \<open>c2\<close> subscribe to \<open>veh-1\<close>;
  a sample for \<open>veh-1\<close> is then posted and stored (status 201). The claim gives each of
  them one message; the code sends none: the set holds the strings \<open>c1\<close> and \<open>c2\<close>,
  whose \<^verbatim>\<open>readyState\<close> is \<^verbatim>\<open>undefined\<close>. The same sample through the socket event
  \<^verbatim>\<open>performance-data\<close> of a third connection is stored and acknowledged to that
  connection with \<^verbatim>\<open>data-stored\<close>; \<open>c1\<close> and \<open>c2\<close> get nothing.
\<close>

theorem subscribers_receive_no_broadcast:
  "vehicleConnections (run [SubscribeVehicle ''c1'' (JStr ''veh-1''),
      SubscribeVehicle ''c2'' (JStr ''veh-1''),
      PostPerformanceData sample_veh1 ''2026-11-01T12:00:00.004Z'' ''2026-11-01T12:00:00.005Z''
        (DbData stored_veh1)]) =
     [(JStr ''veh-1'', [SocketId ''c1'', SocketId ''c2''])] \<and>
   map res_status (responses (run [SubscribeVehicle ''c1'' (JStr ''veh-1''),
      SubscribeVehicle ''c2'' (JStr ''veh-1''),
      PostPerformanceData sample_veh1 ''2026-11-01T12:00:00.004Z'' ''2026-11-01T12:00:00.005Z''
        (DbData stored_veh1)])) = [201] \<and>
   sent (run [SubscribeVehicle ''c1'' (JStr ''veh-1''),
      SubscribeVehicle ''c2'' (JStr ''veh-1''),
      PostPerformanceData sample_veh1 ''2026-11-01T12:00:00.004Z'' ''2026-11-01T12:00:00.005Z''
        (DbData stored_veh1)]) = [] \<and>
   emitted (run [SubscribeVehicle ''c1'' (JStr ''veh-1''),
      SubscribeVehicle ''c2'' (JStr ''veh-1''),
      PostPerformanceData sample_veh1 ''2026-11-01T12:00:00.004Z'' ''2026-11-01T12:00:00.005Z''
        (DbData stored_veh1)]) =
     [(''c1'', EvSubscribed (JStr ''veh-1'') ''Successfully subscribed to vehicle updates''),
      (''c2'', EvSubscribed (JStr ''veh-1'') ''Successfully subscribed to vehicle updates'')] \<and>
   sent (run [SubscribeVehicle ''c1'' (JStr ''veh-1''),
      SubscribeVehicle ''c2'' (JStr ''veh-1''),
      PerformanceData ''c3'' (Some sample_veh1) ''2026-11-01T12:00:00.000Z''
        (DbData stored_veh1)]) = [] \<and>
   emitted (run [SubscribeVehicle ''c1'' (JStr ''veh-1''),
      SubscribeVehicle ''c2'' (JStr ''veh-1''),
      PerformanceData ''c3'' (Some sample_veh1) ''2026-11-01T12:00:00.000Z''
        (DbData stored_veh1)]) =
     [(''c1'', EvSubscribed (JStr ''veh-1'') ''Successfully subscribed to vehicle updates''),
      (''c2'', EvSubscribed (JStr ''veh-1'') ''Successfully subscribed to vehicle updates''),
      (''c3'', EvDataStored True (JStr ''veh-1'') (JStr ''2026-11-01T12:00:00.000Z''))]"
  by (simp add: handler_defs sample_veh1_def)

section \<open>The persisted record\<close>

text \<open>
  C8 at a concrete sample. The socket handler builds every reading as
  \<^verbatim>\<open>reading || null\<close>: the readings \<^verbatim>\<open>rpm: 0\<close> and \<^verbatim>\<open>speed: 0\<close> of a vehicle at rest
  are present in the input and reach the database as \<^verbatim>\<open>null\<close>, where the claim has them
  passed through with their value. The REST handler hands the same sample over as it is.
\<close>

theorem socket_ingest_turns_zero_into_null:
  "insert_calls (on_performance_data ''A'' (Some idle_sample) ''2026-11-01T12:00:00.000Z''
      (DbData stored_veh1) initial) =
     [\<lparr>vehicle_id = JStr ''veh-1'', rpm = JNull, speed = JNull,
       batteryVoltage = JNull, fuelTankLevel = JNull, intakeAirTemp = JNull,
       coolantTemp = JNum 90, engineTemp = JNull, fuelConsumption = JNull,
       timestamp = JStr ''2026-11-01T12:00:00.000Z''\<rparr>] \<and>
   insert_calls (post_performance_data idle_sample ''2026-11-01T12:00:00.004Z''
      ''2026-11-01T12:00:00.005Z'' (DbData stored_veh1) initial) =
     [\<lparr>vehicle_id = JStr ''veh-1'', rpm = JNum 0, speed = JNum 0,
       batteryVoltage = JUndefined, fuelTankLevel = JUndefined, intakeAirTemp = JUndefined,
       coolantTemp = JNum 90, engineTemp = JUndefined, fuelConsumption = JUndefined,
       timestamp = JUndefined\<rparr>]"
  by (simp add: handler_defs idle_sample_def)

text \<open>
  C9, as the code has it. For every sample the socket handler accepts, the timestamp of
  the row handed to the database is the clock reading of the server at ingest, whether
  the sample carries a timestamp or not, and the acknowledgement carries the same
  reading.
\<close>

theorem socket_ingest_timestamp_is_server_assigned:
  assumes "truthy (vehicle_id d)"
  shows "map timestamp (insert_calls (on_performance_data c (Some d) now reply st)) =
           map timestamp (insert_calls st) @ [JStr now] \<and>
         emitted (on_performance_data c (Some d) now (DbData stored) st) =
           emitted st @ [(c, EvDataStored True (vehicle_id d) (JStr now))]"
  using assms
  by (simp add: on_performance_data_def supabase_insert_def emit_def Let_def
        split: db_reply.splits)

theorem socket_ingest_timestamp_is_server_assigned_witness:
  "truthy (vehicle_id dated_sample) \<and>
   map timestamp (insert_calls (on_performance_data ''A'' (Some dated_sample)
      ''2026-11-01T12:00:00.000Z'' (DbData stored_veh1) initial)) =
     [JStr ''2026-11-01T12:00:00.000Z'']"
  using socket_ingest_timestamp_is_server_assigned
    [of dated_sample "''A''" "''2026-11-01T12:00:00.000Z''" "DbData stored_veh1" initial]
  by (simp add: dated_sample_def initial_def)

text \<open>
  The claim C9 as stated fails: a sample dated 2020 is stored with the clock reading of
  the server, not with its own timestamp.
\<close>

theorem incoming_timestamp_is_not_kept_counterexample:
  "timestamp dated_sample = JStr ''2020-01-01T00:00:00.000Z'' \<and>
   map timestamp (insert_calls (on_performance_data ''A'' (Some dated_sample)
      ''2026-11-01T12:00:00.000Z'' (DbData stored_veh1) initial)) =
     [JStr ''2026-11-01T12:00:00.000Z''] \<and>
   JStr ''2026-11-01T12:00:00.000Z'' \<noteq> timestamp dated_sample"
  by (simp add: handler_defs dated_sample_def)

end
